theory Spec2Isabelle
  imports Complex_Main "HOL-Library.Multiset" "HOL-Library.Product_Lexorder"
begin

section \<open>Python values, dictionaries and exceptions\<close>

text \<open>
  The endpoints of \<^verbatim>\<open>app.py\<close> pass around values of type \<^verbatim>\<open>Dict[str, Any]\<close>. A value is
  one of the JSON-like shapes below; a dictionary is an association list in insertion
  order. Python's unbounded \<^verbatim>\<open>int\<close> is \<^typ>\<open>int\<close>; a \<^verbatim>\<open>float\<close> that is only passed through
  is carried as a real number.
\<close>

datatype pyval =
    VNone
  | VBool bool
  | VInt int
  | VFloat real
  | VStr string
  | VList "pyval list"
  | VDict "(string \<times> pyval) list"

type_synonym pydict = "(string \<times> pyval) list"

text \<open>\<^verbatim>\<open>d.get(key, default)\<close>.\<close>

definition dict_get :: "pydict \<Rightarrow> string \<Rightarrow> pyval \<Rightarrow> pyval" where
  "dict_get d k dflt = (case map_of d k of None \<Rightarrow> dflt | Some v \<Rightarrow> v)"

text \<open>Truth value of an object, as \<^verbatim>\<open>if x\<close> and \<^verbatim>\<open>x and y\<close> test it.\<close>

fun truthy :: "pyval \<Rightarrow> bool" where
  "truthy VNone = False"
| "truthy (VBool b) = b"
| "truthy (VInt n) = (n \<noteq> 0)"
| "truthy (VFloat x) = (x \<noteq> 0)"
| "truthy (VStr s) = (s \<noteq> [])"
| "truthy (VList xs) = (xs \<noteq> [])"
| "truthy (VDict kvs) = (kvs \<noteq> [])"

text \<open>
  An exception that \<^verbatim>\<open>except Exception\<close> catches: FastAPI's \<^verbatim>\<open>HTTPException\<close> with its status
  code and detail, or any other instance of \<^verbatim>\<open>Exception\<close>, given by the text \<^verbatim>\<open>str(e)\<close>
  yields.
\<close>

datatype py_exception =
    HTTPException int pyval
  | OtherException string

text \<open>
  The prefix slice \<^verbatim>\<open>xs[:k]\<close> of a sequence: a negative \<^verbatim>\<open>k\<close> counts from the end, and the
  stop index is cut to the range of the sequence.
\<close>

definition slice_to :: "'a list \<Rightarrow> int \<Rightarrow> 'a list" where
  "slice_to xs k = (if 0 \<le> k then take (nat k) xs else take (nat (int (length xs) + k)) xs)"

text \<open>
  \<^verbatim>\<open>v[:k]\<close> on a value: lists and strings are sliced, everything else raises (the
  messages are CPython 3.11's \<^verbatim>\<open>TypeError\<close> texts).
\<close>

fun py_slice_to :: "pyval \<Rightarrow> int \<Rightarrow> py_exception + pyval" where
  "py_slice_to (VList xs) k = Inr (VList (slice_to xs k))"
| "py_slice_to (VStr s) k = Inr (VStr (slice_to s k))"
| "py_slice_to VNone k = Inl (OtherException '''NoneType' object is not subscriptable'')"
| "py_slice_to (VBool b) k = Inl (OtherException '''bool' object is not subscriptable'')"
| "py_slice_to (VInt n) k = Inl (OtherException '''int' object is not subscriptable'')"
| "py_slice_to (VFloat x) k = Inl (OtherException '''float' object is not subscriptable'')"
| "py_slice_to (VDict kvs) k = Inl (OtherException (''unhashable type: 'slice'' @ [CHR 0x27]))"

text \<open>\<^verbatim>\<open>len(v)\<close>; values without a length raise \<^verbatim>\<open>TypeError\<close>.\<close>

fun py_len :: "pyval \<Rightarrow> py_exception + int" where
  "py_len (VList xs) = Inr (int (length xs))"
| "py_len (VStr s) = Inr (int (length s))"
| "py_len (VDict kvs) = Inr (int (length kvs))"
| "py_len VNone = Inl (OtherException ''object of type 'NoneType' has no len()'')"
| "py_len (VBool b) = Inl (OtherException ''object of type 'bool' has no len()'')"
| "py_len (VInt n) = Inl (OtherException ''object of type 'int' has no len()'')"
| "py_len (VFloat x) = Inl (OtherException ''object of type 'float' has no len()'')"

section \<open>The environment of one request\<close>

text \<open>
  The modules \<^verbatim>\<open>ml_engine\<close> and \<^verbatim>\<open>geo_engine\<close> are collaborators of \<^verbatim>\<open>app.py\<close>: what their
  constructors and methods do during one request is a parameter of every endpoint. A
  constructor either raises or succeeds; a method either raises or returns its value.
  \<^verbatim>\<open>datetime.now().isoformat()\<close> and Starlette's \<^verbatim>\<open>HTTPException.__str__\<close> are library functions
  and parameters as well.
\<close>

record env =
  new_AIMLModelsEngine :: "py_exception option"
  run_all_models :: "py_exception + pydict"
  connect_db :: "py_exception + pyval"
  new_GeographicalAnalysisEngine :: "py_exception option"
  connect :: "py_exception + pyval"
  now_isoformat :: string
  str_HTTPException :: "int \<Rightarrow> pyval \<Rightarrow> string"

text \<open>\<^verbatim>\<open>str(e)\<close>.\<close>

fun py_str :: "env \<Rightarrow> py_exception \<Rightarrow> string" where
  "py_str ev (HTTPException code detail) = str_HTTPException ev code detail"
| "py_str ev (OtherException msg) = msg"

text \<open>
  What an endpoint does that an observer sees besides its result: the engines it
  builds, the engine methods it calls and the lines it logs, in order.
\<close>

datatype event =
    Construct_AIMLModelsEngine
  | Call_run_all_models
  | Call_connect_db
  | Construct_GeographicalAnalysisEngine
  | Call_connect
  | Log_info string
  | Log_error string

text \<open>
  A computation yields the events it caused and either the exception it raised
  (\<open>Inl\<close>) or the value it returned (\<open>Inr\<close>).
\<close>

type_synonym 'a outcome = "event list \<times> (py_exception + 'a)"

definition HTTP_500_INTERNAL_SERVER_ERROR :: int where
  "HTTP_500_INTERNAL_SERVER_ERROR = 500"

text \<open>
  The two statements every ML endpoint starts its \<^verbatim>\<open>try\<close> block with:
  \<^verbatim>\<open>engine = AIMLModelsEngine(...); results = engine.run_all_models()\<close>.
\<close>

definition engine_run_all_models :: "env \<Rightarrow> pydict outcome" where
  "engine_run_all_models ev =
     (case new_AIMLModelsEngine ev of
        Some e \<Rightarrow> ([Construct_AIMLModelsEngine], Inl e)
      | None \<Rightarrow> ([Construct_AIMLModelsEngine, Call_run_all_models], run_all_models ev))"

section \<open>Endpoints\<close>

text \<open>\<^verbatim>\<open>GET /health\<close>: every exception of the \<^verbatim>\<open>try\<close> block is turned into a response.\<close>

definition health_check_try :: "env \<Rightarrow> pydict outcome" where
  "health_check_try ev =
     (case new_AIMLModelsEngine ev of
        Some e \<Rightarrow> ([Construct_AIMLModelsEngine], Inl e)
      | None \<Rightarrow>
     (case connect_db ev of
        Inl e \<Rightarrow> ([Construct_AIMLModelsEngine, Call_connect_db], Inl e)
      | Inr ml_status \<Rightarrow>
     (case new_GeographicalAnalysisEngine ev of
        Some e \<Rightarrow>
          ([Construct_AIMLModelsEngine, Call_connect_db, Construct_GeographicalAnalysisEngine],
           Inl e)
      | None \<Rightarrow>
     (case connect ev of
        Inl e \<Rightarrow>
          ([Construct_AIMLModelsEngine, Call_connect_db, Construct_GeographicalAnalysisEngine,
            Call_connect], Inl e)
      | Inr geo_status \<Rightarrow>
          ([Construct_AIMLModelsEngine, Call_connect_db, Construct_GeographicalAnalysisEngine,
            Call_connect],
           Inr [(''status'', VStr ''healthy''),
                (''timestamp'', VStr (now_isoformat ev)),
                (''database'',
                   VStr (if truthy ml_status \<and> truthy geo_status
                         then ''connected'' else ''disconnected'')),
                (''ml_engine'',
                   VStr (if truthy ml_status then ''operational'' else ''unavailable'')),
                (''geo_engine'',
                   VStr (if truthy geo_status then ''operational'' else ''unavailable''))])))))"

definition health_check :: "env \<Rightarrow> pydict outcome" where
  "health_check ev =
     (case health_check_try ev of
        (tr, Inr response) \<Rightarrow> (tr, Inr response)
      | (tr, Inl e) \<Rightarrow>
          (tr @ [Log_error (''Health check failed: '' @ py_str ev e)],
           Inr [(''status'', VStr ''unhealthy''),
                (''timestamp'', VStr (now_isoformat ev)),
                (''database'', VStr ''disconnected''),
                (''error'', VStr (py_str ev e))]))"

text \<open>
  \<^verbatim>\<open>POST /api/v1/score-all-leads\<close>: a result with status \<^verbatim>\<open>failed\<close> is raised as an HTTP
  error; \<^verbatim>\<open>except HTTPException: raise\<close> lets HTTP errors through, any other exception
  becomes a 500.
\<close>

definition score_all_leads_try :: "env \<Rightarrow> pydict outcome" where
  "score_all_leads_try ev =
     (case engine_run_all_models ev of
        (tr, Inl e) \<Rightarrow> (Log_info ''Running complete ML analysis on all leads...'' # tr, Inl e)
      | (tr, Inr results) \<Rightarrow>
          (Log_info ''Running complete ML analysis on all leads...'' # tr,
           if dict_get results ''status'' VNone = VStr ''failed''
           then Inl (HTTPException HTTP_500_INTERNAL_SERVER_ERROR
                       (dict_get results ''error'' (VStr ''ML analysis failed'')))
           else Inr results))"

definition score_all_leads :: "env \<Rightarrow> pydict outcome" where
  "score_all_leads ev =
     (case score_all_leads_try ev of
        (tr, Inr response) \<Rightarrow> (tr, Inr response)
      | (tr, Inl (HTTPException code detail)) \<Rightarrow> (tr, Inl (HTTPException code detail))
      | (tr, Inl e) \<Rightarrow>
          (tr @ [Log_error (''ML analysis failed: '' @ py_str ev e)],
           Inl (HTTPException HTTP_500_INTERNAL_SERVER_ERROR (VStr (py_str ev e)))))"

text \<open>\<^verbatim>\<open>GET /api/v1/summary\<close>: the status of the result is not looked at.\<close>

definition get_summary :: "env \<Rightarrow> pydict outcome" where
  "get_summary ev =
     (case engine_run_all_models ev of
        (tr, Inr results) \<Rightarrow>
          (tr, Inr [(''summary'', dict_get results ''summary'' (VDict [])),
                    (''timestamp'', dict_get results ''timestamp'' VNone),
                    (''status'', VStr ''success'')])
      | (tr, Inl e) \<Rightarrow>
          (tr @ [Log_error (''Summary generation failed: '' @ py_str ev e)],
           Inl (HTTPException HTTP_500_INTERNAL_SERVER_ERROR (VStr (py_str ev e)))))"

text \<open>
  \<^verbatim>\<open>GET /api/v1/top-leads/{limit}\<close>: the limit is checked before the \<^verbatim>\<open>try\<close> block, so the
  400 is not rewritten by the handler; inside the block the ranked list is cut with
  \<^verbatim>\<open>[:limit]\<close>.
\<close>

definition get_top_leads_try :: "env \<Rightarrow> int \<Rightarrow> pydict outcome" where
  "get_top_leads_try ev limit =
     (case engine_run_all_models ev of
        (tr, Inl e) \<Rightarrow> (tr, Inl e)
      | (tr, Inr results) \<Rightarrow>
     (case py_slice_to (dict_get results ''top_leads'' (VList [])) limit of
        Inl e \<Rightarrow> (tr, Inl e)
      | Inr top_leads \<Rightarrow>
     (case py_len top_leads of
        Inl e \<Rightarrow> (tr, Inl e)
      | Inr n \<Rightarrow>
          (tr, Inr [(''top_leads'', top_leads),
                    (''count'', VInt n),
                    (''timestamp'', dict_get results ''timestamp'' VNone),
                    (''status'', VStr ''success'')]))))"

definition get_top_leads :: "env \<Rightarrow> int \<Rightarrow> pydict outcome" where
  "get_top_leads ev limit =
     (if limit > 100
      then ([], Inl (HTTPException 400 (VStr ''Limit cannot exceed 100'')))
      else
        (case get_top_leads_try ev limit of
           (tr, Inr response) \<Rightarrow> (tr, Inr response)
         | (tr, Inl e) \<Rightarrow>
             (tr @ [Log_error (''Top leads retrieval failed: '' @ py_str ev e)],
              Inl (HTTPException HTTP_500_INTERNAL_SERVER_ERROR (VStr (py_str ev e))))))"

text \<open>\<^verbatim>\<open>GET /api/v1/at-risk-leads\<close> and \<^verbatim>\<open>GET /api/v1/recommendations\<close>.\<close>

definition get_at_risk_leads_try :: "env \<Rightarrow> pydict outcome" where
  "get_at_risk_leads_try ev =
     (case engine_run_all_models ev of
        (tr, Inl e) \<Rightarrow> (tr, Inl e)
      | (tr, Inr results) \<Rightarrow>
     (case py_len (dict_get results ''at_risk_leads'' (VList [])) of
        Inl e \<Rightarrow> (tr, Inl e)
      | Inr n \<Rightarrow>
          (tr, Inr [(''at_risk_leads'', dict_get results ''at_risk_leads'' (VList [])),
                    (''count'', VInt n),
                    (''timestamp'', dict_get results ''timestamp'' VNone),
                    (''status'', VStr ''success'')])))"

definition get_at_risk_leads :: "env \<Rightarrow> pydict outcome" where
  "get_at_risk_leads ev =
     (case get_at_risk_leads_try ev of
        (tr, Inr response) \<Rightarrow> (tr, Inr response)
      | (tr, Inl e) \<Rightarrow>
          (tr @ [Log_error (''At-risk leads retrieval failed: '' @ py_str ev e)],
           Inl (HTTPException HTTP_500_INTERNAL_SERVER_ERROR (VStr (py_str ev e)))))"

definition get_recommendations_try :: "env \<Rightarrow> pydict outcome" where
  "get_recommendations_try ev =
     (case engine_run_all_models ev of
        (tr, Inl e) \<Rightarrow> (tr, Inl e)
      | (tr, Inr results) \<Rightarrow>
     (case py_len (dict_get results ''recommendations'' (VList [])) of
        Inl e \<Rightarrow> (tr, Inl e)
      | Inr n \<Rightarrow>
          (tr, Inr [(''recommendations'', dict_get results ''recommendations'' (VList [])),
                    (''count'', VInt n),
                    (''timestamp'', dict_get results ''timestamp'' VNone),
                    (''status'', VStr ''success'')])))"

definition get_recommendations :: "env \<Rightarrow> pydict outcome" where
  "get_recommendations ev =
     (case get_recommendations_try ev of
        (tr, Inr response) \<Rightarrow> (tr, Inr response)
      | (tr, Inl e) \<Rightarrow>
          (tr @ [Log_error (''Recommendations generation failed: '' @ py_str ev e)],
           Inl (HTTPException HTTP_500_INTERNAL_SERVER_ERROR (VStr (py_str ev e)))))"

section \<open>Example requests\<close>

text \<open>
  A lead as the ranked views carry it, the score of a lead under the key \<^verbatim>\<open>score\<close>, and
  an environment in which both engines are built, both connections succeed and
  \<^verbatim>\<open>run_all_models\<close> returns the given dictionary.
\<close>

definition example_lead :: "int \<Rightarrow> int \<Rightarrow> pyval" where
  "example_lead i s = VDict [(''lead_id'', VInt i), (''score'', VInt s)]"

fun lead_score :: "pyval \<Rightarrow> int" where
  "lead_score (VDict kvs) = (case map_of kvs ''score'' of Some (VInt n) \<Rightarrow> n | _ \<Rightarrow> 0)"
| "lead_score _ = 0"

definition example_env :: "pydict \<Rightarrow> env" where
  "example_env results =
     \<lparr> new_AIMLModelsEngine = None,
       run_all_models = Inr results,
       connect_db = Inr (VBool True),
       new_GeographicalAnalysisEngine = None,
       connect = Inr (VBool True),
       now_isoformat = ''2024-01-01T00:00:00'',
       str_HTTPException = (\<lambda>code detail. ''HTTPException'') \<rparr>"

definition ranked_results :: pydict where
  "ranked_results =
     [(''status'', VStr ''success''),
      (''top_leads'', VList [example_lead 1 90, example_lead 2 60, example_lead 3 30]),
      (''timestamp'', VStr ''2024-01-01T00:00:00'')]"

definition failed_results :: pydict where
  "failed_results =
     [(''status'', VStr ''failed''),
      (''error'', VStr ''Database connection failed'')]"

section \<open>The analytics core\<close>

text \<open>
  The endpoints only forward what \<^verbatim>\<open>ml_engine.AIMLModelsEngine\<close> and
  \<^verbatim>\<open>geo_engine.GeographicalAnalysisEngine\<close> compute. Neither module is among the sources, so
  the parts of the two pipelines that the properties below speak about are written down
  from the specification. Numbers that the specification treats as exact quantities
  (shares, scores, probabilities) are real numbers here.
\<close>

subsection \<open>Data model\<close>

text \<open>Modelled from the spec: the error kinds of section 7 (\<^verbatim>\<open>ml_engine\<close>, \<^verbatim>\<open>geo_engine\<close> are missing).\<close>

datatype core_error =
    RepositoryUnavailable string
  | DataIntegrityError string
  | InvariantViolation string
  | UsageError string

text \<open>Modelled from the spec: the single explanatory string of a failed invocation (section 7).\<close>

fun error_message :: "core_error \<Rightarrow> string" where
  "error_message (RepositoryUnavailable msg) = msg"
| "error_message (DataIntegrityError msg) = msg"
| "error_message (InvariantViolation msg) = msg"
| "error_message (UsageError msg) = msg"

text \<open>Modelled from the spec: the enumeration \<^verbatim>\<open>status\<close> of a \<^verbatim>\<open>Lead\<close> (section 3).\<close>

datatype lead_status = New | Contacted | Qualified | Won | Lost

text \<open>
  Modelled from the spec: the entity \<^verbatim>\<open>Lead\<close> of section 3, an immutable snapshot row;
  \<^verbatim>\<open>engagement_score\<close> and \<^verbatim>\<open>last_activity_at\<close> may be missing (section 4.2).
\<close>

record lead =
  ident :: nat
  company :: string
  industry :: string
  country :: string
  region :: string
  lead_status :: lead_status
  deal_value :: real
  engagement_score :: "real option"
  last_activity_at :: "int option"
  created_at :: int
  source :: string

text \<open>Modelled from the spec: \<^verbatim>\<open>LeadFeatures\<close> of section 3, a numeric vector.\<close>

type_synonym lead_features = "real list"

text \<open>
  Modelled from the spec: the fixed weights of the scoring model of section 4.3, one
  per feature.
\<close>

type_synonym weights = "real list"

text \<open>Modelled from the spec: the priority tiers of \<^verbatim>\<open>LeadScoreResult\<close> (section 3).\<close>

datatype priority_tier = Hot | Warm | Cold

text \<open>Modelled from the spec: the churn labels of \<^verbatim>\<open>LeadScoreResult\<close> (section 3).\<close>

datatype churn_label = Low | Medium | High

text \<open>Modelled from the spec: the segments of \<^verbatim>\<open>LeadScoreResult\<close> (section 3).\<close>

datatype segment = Champion | Nurture | At_risk | Dormant

text \<open>Modelled from the spec: \<^verbatim>\<open>LeadScoreResult\<close> of section 3.\<close>

record lead_score_result =
  lead_id :: nat
  score :: real
  priority_tier :: priority_tier
  churn_label :: churn_label
  churn_probability :: real
  segment :: segment

text \<open>Modelled from the spec: \<^verbatim>\<open>Recommendation\<close> of section 3.\<close>

record recommendation =
  rec_lead_id :: nat
  action :: string
  priority :: int
  rationale :: string

text \<open>
  Modelled from the spec: \<^verbatim>\<open>MLSummary\<close> of section 3; the priority distribution maps every
  tier to its count.
\<close>

record ml_summary =
  total_leads :: nat
  average_score :: real
  priority_distribution :: "(priority_tier \<times> nat) list"
  at_risk_count :: nat

text \<open>Modelled from the spec: the status of a report, \<^verbatim>\<open>success\<close> or \<^verbatim>\<open>failed\<close> (section 6).\<close>

datatype report_status = Success | Failed

text \<open>
  Modelled from the spec: \<^verbatim>\<open>MLReport\<close> of section 6. On \<^verbatim>\<open>failed\<close> the error string is
  populated and every other field is absent (\<open>None\<close>) or empty.
\<close>

record ml_report =
  summary :: "ml_summary option"
  top_leads :: "lead_score_result list"
  at_risk_leads :: "lead_score_result list"
  recommendations :: "recommendation list"
  timestamp :: "string option"
  status :: report_status
  error :: "string option"

subsection \<open>Per-lead models\<close>

text \<open>Modelled from the spec: clamping a number to a range (section 4.3).\<close>

definition clamp :: "real \<Rightarrow> real \<Rightarrow> real \<Rightarrow> real" where
  "clamp lo hi x = max lo (min hi x)"

text \<open>
  Modelled from the spec: the weighted sum of the features with the fixed weights
  (section 4.3).
\<close>

definition weighted_sum :: "weights \<Rightarrow> lead_features \<Rightarrow> real" where
  "weighted_sum ws fs = sum_list (map (\<lambda>(w, f). w * f) (zip ws fs))"

text \<open>
  Modelled from the spec: the scoring model of section 4.3 (its code, in \<^verbatim>\<open>ml_engine\<close>, is
  missing), the weighted sum scaled to the range from 0 to 100 and clamped.
\<close>

definition scoring_model :: "weights \<Rightarrow> lead_features \<Rightarrow> real" where
  "scoring_model ws fs = clamp 0 100 (100 * weighted_sum ws fs)"

text \<open>
  Modelled from the spec: the priority tier of section 3, a partition of the score by
  the thresholds 75 and 40.
\<close>

definition priority_tier_of :: "real \<Rightarrow> priority_tier" where
  "priority_tier_of s = (if 75 \<le> s then Hot else if 40 \<le> s then Warm else Cold)"

text \<open>
  Modelled from the spec: the bucketing of the churn model of section 4.4 (its code, in
  \<^verbatim>\<open>ml_engine\<close>, is missing), with the thresholds 0.7 and 0.3.
\<close>

definition churn_label_of :: "real \<Rightarrow> churn_label" where
  "churn_label_of p = (if 7 / 10 \<le> p then High else if 3 / 10 \<le> p then Medium else Low)"

text \<open>
  Modelled from the spec: what sections 4.2, 4.4, 4.5 and 4.6 leave to the implementer.
  The feature normalizer (\<open>None\<close> when a model fails on the lead, which excludes the
  lead from the batch), the weights, the probability function of the churn model, the
  decision table of the segmentation model and the rule catalogue of the
  recommendation model are parameters of the pipeline.
\<close>

record models =
  feature_normalizer :: "lead \<Rightarrow> lead_features option"
  score_weights :: weights
  churn_model :: "lead_features \<Rightarrow> real"
  segmentation_model :: "real \<Rightarrow> churn_label \<Rightarrow> lead_features \<Rightarrow> segment"
  recommendation_model :: "lead_score_result \<Rightarrow> recommendation list"

text \<open>
  Modelled from the spec: one run of sections 4.2 to 4.5 for one lead (section 4.7); the
  churn model reads the feature vector the scoring model reads.
\<close>

definition score_lead :: "models \<Rightarrow> lead \<Rightarrow> lead_score_result option" where
  "score_lead m l =
     (case feature_normalizer m l of
        None \<Rightarrow> None
      | Some fs \<Rightarrow>
          let s = scoring_model (score_weights m) fs;
              p = churn_model m fs;
              c = churn_label_of p
          in Some \<lparr> lead_id = ident l, score = s, priority_tier = priority_tier_of s,
                    churn_label = c, churn_probability = p,
                    segment = segmentation_model m s c fs \<rparr>)"

subsection \<open>ML result aggregator\<close>

text \<open>
  Modelled from the spec: the total order of section 4.3 for ranking, score descending,
  then the more recent \<^verbatim>\<open>last_activity_at\<close> (a lead without one ranks after those with
  one, as section 4.2 treats it as maximally stale), then \<^verbatim>\<open>id\<close> ascending.
\<close>

definition ranking_key :: "lead \<times> lead_score_result \<Rightarrow> real \<times> (nat \<times> int) \<times> nat" where
  "ranking_key lr =
     (- score (snd lr),
      (case last_activity_at (fst lr) of None \<Rightarrow> (1, 0) | Some t \<Rightarrow> (0, - t)),
      ident (fst lr))"

text \<open>
  Modelled from the spec: the order of the recommendation list of section 4.6, priority
  descending, then score descending, then \<^verbatim>\<open>lead_id\<close> ascending.
\<close>

definition recommendation_key :: "lead_score_result \<times> recommendation \<Rightarrow> int \<times> real \<times> nat" where
  "recommendation_key rr = (- priority (snd rr), - score (fst rr), lead_id (fst rr))"

text \<open>
  Modelled from the spec: \<^verbatim>\<open>MLSummary\<close> of section 4.7; the average score of no leads is
  defined as 0 (section 8).
\<close>

definition summarize :: "lead_score_result list \<Rightarrow> ml_summary" where
  "summarize rs =
     \<lparr> total_leads = length rs,
       average_score =
         (if rs = [] then 0 else sum_list (map score rs) / real (length rs)),
       priority_distribution =
         map (\<lambda>t. (t, length (filter (\<lambda>r. priority_tier r = t) rs))) [Hot, Warm, Cold],
       at_risk_count = length (filter (\<lambda>r. churn_label r = High) rs) \<rparr>"

text \<open>
  Modelled from the spec: \<^verbatim>\<open>run_lead_intelligence\<close> of sections 4.7 and 6 (the missing
  \<^verbatim>\<open>run_all_models\<close> of \<^verbatim>\<open>ml_engine\<close>). The snapshot
  source is what the repository's \<^verbatim>\<open>fetch_active_leads\<close> yields; the run fails as a whole
  only when the repository fails. The timestamp is a parameter.
\<close>

definition run_lead_intelligence ::
    "models \<Rightarrow> string \<Rightarrow> core_error + lead list \<Rightarrow> ml_report" where
  "run_lead_intelligence m now snapshot_source =
     (case snapshot_source of
        Inl e \<Rightarrow>
          \<lparr> summary = None, top_leads = [], at_risk_leads = [], recommendations = [],
            timestamp = None, status = Failed, error = Some (error_message e) \<rparr>
      | Inr leads \<Rightarrow>
          let scored = List.map_filter (\<lambda>l. map_option (Pair l) (score_lead m l)) leads;
              ranked = map snd (sort_key ranking_key scored)
          in \<lparr> summary = Some (summarize ranked),
               top_leads = ranked,
               at_risk_leads =
                 sort_key (\<lambda>r. - churn_probability r)
                   (filter (\<lambda>r. churn_label r = High) ranked),
               recommendations =
                 map snd (sort_key recommendation_key
                   (concat (map (\<lambda>r. map (Pair r) (recommendation_model m r)) ranked))),
               timestamp = Some now, status = Success, error = None \<rparr>)"

subsection \<open>Concentration calculator\<close>

text \<open>Modelled from the spec: the qualitative label of \<^verbatim>\<open>ConcentrationResult\<close> (section 3).\<close>

datatype concentration_label = Fragmented | Moderate | Concentrated

text \<open>Modelled from the spec: \<^verbatim>\<open>ConcentrationResult\<close> of section 3.\<close>

record concentration_result =
  index :: real
  label :: concentration_label

text \<open>
  Modelled from the spec: the index of section 4.9, the sum of the squared shares.
\<close>

definition concentration_index :: "real list \<Rightarrow> real" where
  "concentration_index shares = sum_list (map (\<lambda>s. s\<^sup>2) shares)"

text \<open>
  Modelled from the spec: the label of section 4.9, fragmented below 0.15, concentrated
  above 0.25 and moderate in between.
\<close>

definition concentration_label_of :: "real \<Rightarrow> concentration_label" where
  "concentration_label_of x =
     (if x < 15 / 100 then Fragmented else if 25 / 100 < x then Concentrated else Moderate)"

text \<open>
  Modelled from the spec: the concentration calculator of section 4.9 (its code, in
  \<^verbatim>\<open>geo_engine\<close>, is missing). The shares must
  sum to 1 within the tolerance \<open>1e-6\<close>, otherwise the calculator fails with an
  \<^verbatim>\<open>InvariantViolation\<close>.
\<close>

definition concentration_calculator :: "real list \<Rightarrow> core_error + concentration_result" where
  "concentration_calculator shares =
     (if \<bar>sum_list shares - 1\<bar> \<le> 1 / 1000000
      then Inr \<lparr> index = concentration_index shares,
                 label = concentration_label_of (concentration_index shares) \<rparr>
      else Inl (InvariantViolation ''country shares do not sum to 1''))"

text \<open>
  Modelled from the spec: the Pigou--Dalton transfer of section 8. The mass \<open>d\<close> moves
  from the share at position \<open>i\<close> to the share at position \<open>j\<close>; positions outside the
  list leave it as it is.
\<close>

definition transfer :: "nat \<Rightarrow> nat \<Rightarrow> real \<Rightarrow> real list \<Rightarrow> real list" where
  "transfer i j d shares =
     (if i < length shares \<and> j < length shares
      then (shares[i := shares ! i - d])[j := shares ! j + d]
      else shares)"

subsection \<open>Example snapshots\<close>

definition example_models :: models where
  "example_models =
     \<lparr> feature_normalizer = (\<lambda>l. Some [1 / 2, 1 / 2]),
       score_weights = [1 / 2, 1 / 2],
       churn_model = (\<lambda>fs. 1 / 2),
       segmentation_model = (\<lambda>s c fs. Nurture),
       recommendation_model = (\<lambda>r. []) \<rparr>"

section \<open>Facts about the endpoints\<close>

lemma example_env_new: "new_AIMLModelsEngine (example_env results) = None"
  by (simp add: example_env_def)

lemma example_env_run: "run_all_models (example_env results) = Inr results"
  by (simp add: example_env_def)

lemma ranked_results_top:
  "map_of ranked_results ''top_leads''
     = Some (VList [example_lead 1 90, example_lead 2 60, example_lead 3 30])"
  by (simp add: ranked_results_def)

lemma ranked_results_timestamp:
  "dict_get ranked_results ''timestamp'' VNone = VStr ''2024-01-01T00:00:00''"
  by (simp add: dict_get_def ranked_results_def)

lemma engine_run_trace:
  "\<exists>tr. fst (engine_run_all_models ev) = Construct_AIMLModelsEngine # tr"
  by (simp add: engine_run_all_models_def split: option.split)

lemma get_top_leads_try_trace:
  "\<exists>tr. fst (get_top_leads_try ev limit) = Construct_AIMLModelsEngine # tr"
  using engine_run_trace [of ev]
  by (auto simp: get_top_leads_try_def split: prod.split sum.split)

lemma get_top_leads_accepted:
  assumes "limit \<le> 100"
  shows "\<exists>tr r. get_top_leads ev limit = (Construct_AIMLModelsEngine # tr, r)
           \<and> (\<forall>detail. r \<noteq> Inl (HTTPException 400 detail))"
proof -
  obtain tr where tr: "fst (get_top_leads_try ev limit) = Construct_AIMLModelsEngine # tr"
    using get_top_leads_try_trace by blast
  show ?thesis
  proof (cases "snd (get_top_leads_try ev limit)")
    case (Inl e)
    with tr assms show ?thesis
      by (cases "get_top_leads_try ev limit")
         (simp add: get_top_leads_def HTTP_500_INTERNAL_SERVER_ERROR_def)
  next
    case (Inr r)
    with tr assms show ?thesis
      by (cases "get_top_leads_try ev limit") (simp add: get_top_leads_def)
  qed
qed

lemma get_top_leads_try_list:
  assumes "new_AIMLModelsEngine ev = None" and "run_all_models ev = Inr results"
    and "map_of results ''top_leads'' = Some (VList leads)"
  shows "snd (get_top_leads_try ev limit) =
           Inr [(''top_leads'', VList (slice_to leads limit)),
                (''count'', VInt (int (length (slice_to leads limit)))),
                (''timestamp'', dict_get results ''timestamp'' VNone),
                (''status'', VStr ''success'')]"
  using assms by (simp add: get_top_leads_try_def engine_run_all_models_def dict_get_def)

lemma get_top_leads_list:
  assumes "new_AIMLModelsEngine ev = None" and "run_all_models ev = Inr results"
    and "map_of results ''top_leads'' = Some (VList leads)" and "limit \<le> 100"
  shows "snd (get_top_leads ev limit) =
           Inr [(''top_leads'', VList (slice_to leads limit)),
                (''count'', VInt (int (length (slice_to leads limit)))),
                (''timestamp'', dict_get results ''timestamp'' VNone),
                (''status'', VStr ''success'')]"
  using get_top_leads_try_list [OF assms(1-3), of limit] assms(4)
  by (cases "get_top_leads_try ev limit") (simp add: get_top_leads_def)

lemma sorted_wrt_take: "sorted_wrt P xs \<Longrightarrow> sorted_wrt P (take n xs)"
  by (metis append_take_drop_id sorted_wrt_append)

lemma slice_to_negative:
  assumes "0 < k"
  shows "slice_to xs (- int k) = take (length xs - k) xs"
proof -
  have "nat (int (length xs) + - int k) = length xs - k"
    by linarith
  with assms show ?thesis
    by (simp add: slice_to_def)
qed

lemma health_check_try_returns:
  "snd (health_check_try ev) = Inr response \<Longrightarrow>
     \<exists>ml_status geo_status.
        connect_db ev = Inr ml_status \<and> connect ev = Inr geo_status
        \<and> response =
            [(''status'', VStr ''healthy''),
             (''timestamp'', VStr (now_isoformat ev)),
             (''database'',
                VStr (if truthy ml_status \<and> truthy geo_status
                      then ''connected'' else ''disconnected'')),
             (''ml_engine'',
                VStr (if truthy ml_status then ''operational'' else ''unavailable'')),
             (''geo_engine'',
                VStr (if truthy geo_status then ''operational'' else ''unavailable''))]"
  by (cases "new_AIMLModelsEngine ev"; cases "connect_db ev";
      cases "new_GeographicalAnalysisEngine ev"; cases "connect ev")
     (simp_all add: health_check_try_def split del: if_split)

lemma score_all_leads_failed:
  assumes "new_AIMLModelsEngine ev = None" and "run_all_models ev = Inr results"
    and "map_of results ''status'' = Some (VStr ''failed'')"
  shows "snd (score_all_leads ev) =
           Inl (HTTPException 500 (dict_get results ''error'' (VStr ''ML analysis failed'')))"
  using assms
  by (simp add: score_all_leads_def score_all_leads_try_def engine_run_all_models_def
      dict_get_def HTTP_500_INTERNAL_SERVER_ERROR_def)

lemma get_summary_ignores_status:
  assumes "new_AIMLModelsEngine ev = None" and "run_all_models ev = Inr results"
  shows "snd (get_summary ev) =
           Inr [(''summary'', dict_get results ''summary'' (VDict [])),
                (''timestamp'', dict_get results ''timestamp'' VNone),
                (''status'', VStr ''success'')]"
  using assms by (simp add: get_summary_def engine_run_all_models_def)

text \<open>
  Claim C2. A requested count above 100 is answered with HTTP 400 and the detail
  ``Limit cannot exceed 100'' before anything else happens: no engine is built, no
  pipeline runs, nothing is logged. A count of at most 100 passes the check: the
  engine is built, and whatever the request ends with, it is not a 400 (an exception
  of the pipeline, also an HTTP error it might raise, leaves as a 500).
\<close>

theorem top_leads_limit_check:
  "(100 < limit \<longrightarrow>
      get_top_leads ev limit = ([], Inl (HTTPException 400 (VStr ''Limit cannot exceed 100''))))
   \<and> (limit \<le> 100 \<longrightarrow>
      (\<exists>tr r. get_top_leads ev limit = (Construct_AIMLModelsEngine # tr, r)
         \<and> (\<forall>detail. r \<noteq> Inl (HTTPException 400 detail))))"
  using get_top_leads_accepted [of limit ev] by (simp add: get_top_leads_def)

theorem top_leads_limit_check_witness:
  "get_top_leads (example_env ranked_results) 101
     = ([], Inl (HTTPException 400 (VStr ''Limit cannot exceed 100'')))
   \<and> (\<exists>tr r. get_top_leads (example_env ranked_results) 100 = (Construct_AIMLModelsEngine # tr, r)
         \<and> (\<forall>detail. r \<noteq> Inl (HTTPException 400 detail)))"
  using top_leads_limit_check [of 101 "example_env ranked_results"]
        top_leads_limit_check [of 100 "example_env ranked_results"]
  by simp

text \<open>
  Claim C3. When the engine is built, the pipeline returns a result whose \<^verbatim>\<open>top_leads\<close>
  list is sorted by descending score, and the requested limit is a count between 0 and
  the maximum of 100, the response carries exactly the first \<open>limit\<close> entries of that
  list (the whole list when it is shorter), still in descending order, \<^verbatim>\<open>count\<close> is the
  length of the returned list and the status is \<^verbatim>\<open>success\<close>. The score may be any
  function of a lead into a linear order.
\<close>

theorem top_leads_returns_prefix:
  fixes score :: "pyval \<Rightarrow> 'a::linorder"
  assumes "new_AIMLModelsEngine ev = None" and "run_all_models ev = Inr results"
    and "map_of results ''top_leads'' = Some (VList leads)"
    and "sorted_wrt (\<lambda>a b. score b \<le> score a) leads"
    and "0 \<le> limit" and "limit \<le> 100"
  shows "snd (get_top_leads ev limit) =
           Inr [(''top_leads'', VList (take (nat limit) leads)),
                (''count'', VInt (int (length (take (nat limit) leads)))),
                (''timestamp'', dict_get results ''timestamp'' VNone),
                (''status'', VStr ''success'')]
         \<and> sorted_wrt (\<lambda>a b. score b \<le> score a) (take (nat limit) leads)
         \<and> (length leads \<le> nat limit \<longrightarrow> take (nat limit) leads = leads)"
proof -
  have "slice_to leads limit = take (nat limit) leads"
    using assms(5) by (simp add: slice_to_def)
  then show ?thesis
    using get_top_leads_list [OF assms(1-3) assms(6)] assms(4)
    by (simp add: sorted_wrt_take)
qed

text \<open>
  The scenario of the specification: three leads with scores 90, 60 and 30, limit 2;
  the response lists the leads with scores 90 and 60, in this order.
\<close>

theorem top_leads_returns_prefix_witness:
  "snd (get_top_leads (example_env ranked_results) 2) =
     Inr [(''top_leads'', VList [example_lead 1 90, example_lead 2 60]),
          (''count'', VInt 2),
          (''timestamp'', VStr ''2024-01-01T00:00:00''),
          (''status'', VStr ''success'')]
   \<and> map lead_score [example_lead 1 90, example_lead 2 60] = [90, 60]"
proof -
  have sorted: "sorted_wrt (\<lambda>a b. lead_score b \<le> lead_score a)
                  [example_lead 1 90, example_lead 2 60, example_lead 3 30]"
    by (simp add: example_lead_def)
  have scores: "map lead_score [example_lead 1 90, example_lead 2 60] = [90, 60]"
    by (simp add: example_lead_def)
  show ?thesis
    using top_leads_returns_prefix
            [OF example_env_new example_env_run ranked_results_top sorted, of 2]
          scores ranked_results_timestamp
    by (simp add: numeral_2_eq_2)
qed

text \<open>
  Claim C10. The limit has no lower bound. With an engine that is built and a result
  whose \<^verbatim>\<open>top_leads\<close> is a list, every limit of at most 100 is answered with status
  \<^verbatim>\<open>success\<close> and the slice \<^verbatim>\<open>[:limit]\<close> of the list; limit 0 gives the empty list with
  count 0; a negative limit \<open>- k\<close> gives the list without its last \<open>k\<close> entries (the
  empty list when it has no more than \<open>k\<close>), and the count of what is left.
\<close>

theorem top_leads_no_lower_bound:
  assumes "new_AIMLModelsEngine ev = None" and "run_all_models ev = Inr results"
    and "map_of results ''top_leads'' = Some (VList leads)"
  shows "(\<forall>limit. limit \<le> 100 \<longrightarrow>
            snd (get_top_leads ev limit) =
              Inr [(''top_leads'', VList (slice_to leads limit)),
                   (''count'', VInt (int (length (slice_to leads limit)))),
                   (''timestamp'', dict_get results ''timestamp'' VNone),
                   (''status'', VStr ''success'')])
       \<and> snd (get_top_leads ev 0) =
           Inr [(''top_leads'', VList []),
                (''count'', VInt 0),
                (''timestamp'', dict_get results ''timestamp'' VNone),
                (''status'', VStr ''success'')]
       \<and> (\<forall>k. 0 < k \<longrightarrow>
            snd (get_top_leads ev (- int k)) =
              Inr [(''top_leads'', VList (rev (drop k (rev leads)))),
                   (''count'', VInt (int (length leads - k))),
                   (''timestamp'', dict_get results ''timestamp'' VNone),
                   (''status'', VStr ''success'')])"
proof -
  have a: "snd (get_top_leads ev limit) =
              Inr [(''top_leads'', VList (slice_to leads limit)),
                   (''count'', VInt (int (length (slice_to leads limit)))),
                   (''timestamp'', dict_get results ''timestamp'' VNone),
                   (''status'', VStr ''success'')]" if "limit \<le> 100" for limit
    using get_top_leads_list [OF assms that] .
  have z: "slice_to leads 0 = []"
    by (simp add: slice_to_def)
  have b: "snd (get_top_leads ev 0) =
           Inr [(''top_leads'', VList []),
                (''count'', VInt 0),
                (''timestamp'', dict_get results ''timestamp'' VNone),
                (''status'', VStr ''success'')]"
    using a [of 0] z by simp
  have c: "snd (get_top_leads ev (- int k)) =
           Inr [(''top_leads'', VList (rev (drop k (rev leads)))),
                (''count'', VInt (int (length leads - k))),
                (''timestamp'', dict_get results ''timestamp'' VNone),
                (''status'', VStr ''success'')]" if "0 < k" for k
    using a [of "- int k"] slice_to_negative [OF that, of leads]
    by (simp add: drop_rev)
  show ?thesis
  proof (intro conjI allI impI)
    fix limit :: int
    assume "limit \<le> 100"
    then show "snd (get_top_leads ev limit) =
              Inr [(''top_leads'', VList (slice_to leads limit)),
                   (''count'', VInt (int (length (slice_to leads limit)))),
                   (''timestamp'', dict_get results ''timestamp'' VNone),
                   (''status'', VStr ''success'')]"
      by (rule a)
  next
    show "snd (get_top_leads ev 0) =
           Inr [(''top_leads'', VList []),
                (''count'', VInt 0),
                (''timestamp'', dict_get results ''timestamp'' VNone),
                (''status'', VStr ''success'')]"
      by (rule b)
  next
    fix k :: nat
    assume "0 < k"
    then show "snd (get_top_leads ev (- int k)) =
              Inr [(''top_leads'', VList (rev (drop k (rev leads)))),
                   (''count'', VInt (int (length leads - k))),
                   (''timestamp'', dict_get results ''timestamp'' VNone),
                   (''status'', VStr ''success'')]"
      by (rule c)
  qed
qed

theorem top_leads_no_lower_bound_witness:
  "snd (get_top_leads (example_env ranked_results) 0) =
     Inr [(''top_leads'', VList []),
          (''count'', VInt 0),
          (''timestamp'', VStr ''2024-01-01T00:00:00''),
          (''status'', VStr ''success'')]
   \<and> snd (get_top_leads (example_env ranked_results) (- 1)) =
     Inr [(''top_leads'', VList [example_lead 1 90, example_lead 2 60]),
          (''count'', VInt 2),
          (''timestamp'', VStr ''2024-01-01T00:00:00''),
          (''status'', VStr ''success'')]"
proof -
  note inst = top_leads_no_lower_bound [OF example_env_new example_env_run ranked_results_top]
  have zero: "snd (get_top_leads (example_env ranked_results) 0) =
     Inr [(''top_leads'', VList []),
          (''count'', VInt 0),
          (''timestamp'', dict_get ranked_results ''timestamp'' VNone),
          (''status'', VStr ''success'')]"
    by (rule inst [THEN conjunct2, THEN conjunct1])
  have "snd (get_top_leads (example_env ranked_results) (- int 1)) =
     Inr [(''top_leads'',
            VList (rev (drop 1 (rev [example_lead 1 90, example_lead 2 60, example_lead 3 30])))),
          (''count'',
            VInt (int (length [example_lead 1 90, example_lead 2 60, example_lead 3 30] - 1))),
          (''timestamp'', dict_get ranked_results ''timestamp'' VNone),
          (''status'', VStr ''success'')]"
    by (rule inst [THEN conjunct2, THEN conjunct2, THEN spec, THEN mp]) simp
  with zero show ?thesis
    by (simp add: ranked_results_timestamp)
qed

text \<open>
  Claim C9. The health check always returns a response and never raises, whatever
  the two constructors and the two connection tests do: either all four calls return
  and the response has status \<^verbatim>\<open>healthy\<close> with the availability of each engine, or one
  of them raises and the response has status \<^verbatim>\<open>unhealthy\<close> with the text of that
  exception under \<^verbatim>\<open>error\<close>.
\<close>

theorem health_check_total:
  "\<exists>tr response. health_check ev = (tr, Inr response)
     \<and> ((\<exists>ml_status geo_status.
            connect_db ev = Inr ml_status \<and> connect ev = Inr geo_status
            \<and> response =
                [(''status'', VStr ''healthy''),
                 (''timestamp'', VStr (now_isoformat ev)),
                 (''database'',
                    VStr (if truthy ml_status \<and> truthy geo_status
                          then ''connected'' else ''disconnected'')),
                 (''ml_engine'',
                    VStr (if truthy ml_status then ''operational'' else ''unavailable'')),
                 (''geo_engine'',
                    VStr (if truthy geo_status then ''operational'' else ''unavailable''))])
        \<or> (\<exists>e. snd (health_check_try ev) = Inl e
             \<and> response =
                [(''status'', VStr ''unhealthy''),
                 (''timestamp'', VStr (now_isoformat ev)),
                 (''database'', VStr ''disconnected''),
                 (''error'', VStr (py_str ev e))]))"
proof (cases "health_check_try ev")
  case (Pair tr r)
  show ?thesis
  proof (cases r)
    case (Inl e)
    with Pair show ?thesis by (simp add: health_check_def)
  next
    case (Inr response)
    with Pair have "snd (health_check_try ev) = Inr response" by simp
    from health_check_try_returns [OF this] Pair Inr show ?thesis
      by (simp add: health_check_def split del: if_split)
  qed
qed

theorem health_check_total_witness:
  "\<exists>tr response.
      health_check ((example_env ranked_results)\<lparr>connect_db := Inl (OtherException ''timeout'')\<rparr>)
        = (tr, Inr response)
      \<and> response =
          [(''status'', VStr ''unhealthy''),
           (''timestamp'', VStr ''2024-01-01T00:00:00''),
           (''database'', VStr ''disconnected''),
           (''error'', VStr ''timeout'')]"
  using health_check_total
          [of "(example_env ranked_results)\<lparr>connect_db := Inl (OtherException ''timeout'')\<rparr>"]
  by (simp add: example_env_def health_check_try_def)

text \<open>
  Claim C1, at the input where the code departs from it. The pipeline result is
  \<^verbatim>\<open>{'status': 'failed', 'error': 'Database connection failed'}\<close>. The summary endpoint
  answers with an empty summary and status \<^verbatim>\<open>success\<close>, and neither the failure nor the
  error string reaches the caller; the endpoint that scores all leads, on the same
  result, raises the HTTP error that carries the error string.
\<close>

theorem failed_result_reported_as_success:
  "snd (get_summary (example_env failed_results)) =
     Inr [(''summary'', VDict []), (''timestamp'', VNone), (''status'', VStr ''success'')]
   \<and> snd (score_all_leads (example_env failed_results)) =
     Inl (HTTPException 500 (VStr ''Database connection failed''))"
  by (simp add: get_summary_def score_all_leads_def score_all_leads_try_def
      engine_run_all_models_def example_env_def failed_results_def dict_get_def
      HTTP_500_INTERNAL_SERVER_ERROR_def)

section \<open>Facts about the analytics core\<close>

lemma scoring_model_in_range: "0 \<le> scoring_model ws fs \<and> scoring_model ws fs \<le> 100"
  by (simp add: scoring_model_def clamp_def)

lemma score_lead_in_range:
  "score_lead m l = Some r \<Longrightarrow> 0 \<le> score r \<and> score r \<le> 100"
  using scoring_model_in_range
  by (auto simp: score_lead_def Let_def split: option.splits)

text \<open>
  The score of every lead of a report lies between 0 and 100, by the clamp of the
  scoring model. (For the churn probability the specification names no function, so the
  pipeline takes it as a parameter and nothing bounds it.)
\<close>

lemma report_scores_in_range:
  assumes "r \<in> set (top_leads (run_lead_intelligence m now src))"
  shows "0 \<le> score r \<and> score r \<le> 100"
proof (cases src)
  case (Inl e)
  with assms show ?thesis by (simp add: run_lead_intelligence_def)
next
  case (Inr leads)
  with assms obtain l where "l \<in> set leads" and "score_lead m l = Some r"
    by (auto simp: run_lead_intelligence_def Let_def List.map_filter_def)
  then show ?thesis by (simp add: score_lead_in_range)
qed

lemma sum_list_perm:
  fixes f :: "real \<Rightarrow> real"
  assumes "mset xs = mset ys"
  shows "sum_list (map f xs) = sum_list (map f ys)"
proof -
  have "sum_list (map f xs) = sum_mset (image_mset f (mset xs))"
    by (metis mset_map sum_mset_sum_list)
  also have "\<dots> = sum_mset (image_mset f (mset ys))"
    by (simp add: assms)
  also have "\<dots> = sum_list (map f ys)"
    by (metis mset_map sum_mset_sum_list)
  finally show ?thesis .
qed

lemma sum_list_map_update:
  fixes f :: "real \<Rightarrow> real"
  shows "i < length xs \<Longrightarrow>
    sum_list (map f (xs[i := v])) = sum_list (map f xs) - f (xs ! i) + f v"
proof (induction xs arbitrary: i)
  case Nil
  then show ?case by simp
next
  case (Cons x xs)
  then show ?case by (cases i) simp_all
qed

lemma transfer_index:
  assumes "i < length shares" and "j < length shares" and "i \<noteq> j"
  shows "concentration_index (transfer i j d shares) =
           concentration_index shares
           - (shares ! i)\<^sup>2 + (shares ! i - d)\<^sup>2 - (shares ! j)\<^sup>2 + (shares ! j + d)\<^sup>2"
  using assms
  by (simp add: concentration_index_def transfer_def sum_list_map_update)

lemma transfer_sum:
  assumes "i < length shares" and "j < length shares" and "i \<noteq> j"
  shows "sum_list (transfer i j d shares) = sum_list shares"
  using assms sum_list_map_update [of j "shares[i := shares ! i - d]" "\<lambda>x. x" "shares ! j + d"]
    sum_list_map_update [of i shares "\<lambda>x. x" "shares ! i - d"]
  by (simp add: transfer_def)

lemma transfer_increases:
  assumes "i < length shares" and "j < length shares"
    and "shares ! i < shares ! j" and "0 < d"
  shows "concentration_index shares < concentration_index (transfer i j d shares)"
proof -
  from assms(3) have ne: "i \<noteq> j" by auto
  define a where "a = shares ! i"
  define b where "b = shares ! j"
  have "(a - d)\<^sup>2 + (b + d)\<^sup>2 - a\<^sup>2 - b\<^sup>2 = 2 * d * (b - a) + 2 * d\<^sup>2"
    by (simp add: power2_eq_square algebra_simps)
  moreover have "0 < 2 * d * (b - a) + 2 * d\<^sup>2"
    using assms(3,4) by (simp add: a_def b_def add_pos_pos)
  ultimately show ?thesis
    using transfer_index [OF assms(1,2) ne, of d] by (simp add: a_def b_def)
qed

lemma concentration_calculator_perm:
  assumes "mset shares = mset shares'"
  shows "concentration_index shares = concentration_index shares'"
    and "concentration_calculator shares = concentration_calculator shares'"
proof -
  show idx: "concentration_index shares = concentration_index shares'"
    unfolding concentration_index_def by (rule sum_list_perm [OF assms])
  have "sum_list shares = sum_list shares'"
    using sum_list_perm [OF assms, of "\<lambda>x. x"] by simp
  with idx show "concentration_calculator shares = concentration_calculator shares'"
    by (simp add: concentration_calculator_def)
qed

text \<open>
  Claim C4. For the empty snapshot the lead-intelligence pipeline returns a report with
  status \<^verbatim>\<open>success\<close>, a summary of 0 leads whose average score is 0, and empty ranked
  views and recommendations, whatever the models are; no division by the number of
  leads takes place.
\<close>

theorem empty_snapshot_report:
  "run_lead_intelligence m now (Inr []) =
     \<lparr> summary = Some \<lparr> total_leads = 0, average_score = 0,
                         priority_distribution = [(Hot, 0), (Warm, 0), (Cold, 0)],
                         at_risk_count = 0 \<rparr>,
       top_leads = [], at_risk_leads = [], recommendations = [],
       timestamp = Some now, status = Success, error = None \<rparr>"
  by (simp add: run_lead_intelligence_def summarize_def List.map_filter_simps)

theorem empty_snapshot_report_witness:
  "status (run_lead_intelligence example_models ''2024-01-01T00:00:00'' (Inr [])) = Success
   \<and> map_option average_score
       (summary (run_lead_intelligence example_models ''2024-01-01T00:00:00'' (Inr []))) = Some 0"
  using empty_snapshot_report [of example_models "''2024-01-01T00:00:00''"]
  by simp

text \<open>
  Claim C5. The churn label is the bucket of the churn probability under the fixed
  thresholds: from 0.7 on it is \<^verbatim>\<open>high\<close>, from 0.3 up to but not including 0.7 it is
  \<^verbatim>\<open>medium\<close>, below 0.3 it is \<^verbatim>\<open>low\<close>, and every scored lead carries the label of its own
  probability. The probabilities 0.75, 0.5 and 0.1 give \<^verbatim>\<open>high\<close>, \<^verbatim>\<open>medium\<close> and \<^verbatim>\<open>low\<close>.
\<close>

theorem churn_label_thresholds:
  "(7 / 10 \<le> p \<longrightarrow> churn_label_of p = High)
   \<and> (3 / 10 \<le> p \<and> p < 7 / 10 \<longrightarrow> churn_label_of p = Medium)
   \<and> (p < 3 / 10 \<longrightarrow> churn_label_of p = Low)
   \<and> (score_lead m l = Some r \<longrightarrow> churn_label r = churn_label_of (churn_probability r))
   \<and> churn_label_of (75 / 100) = High
   \<and> churn_label_of (5 / 10) = Medium
   \<and> churn_label_of (1 / 10) = Low"
  by (auto simp: churn_label_of_def score_lead_def Let_def split: option.splits)

theorem churn_label_thresholds_witness:
  "(7 / 10 :: real) \<le> 75 / 100 \<and> churn_label_of (75 / 100) = High
   \<and> (3 / 10 :: real) \<le> 5 / 10 \<and> (5 / 10 :: real) < 7 / 10 \<and> churn_label_of (5 / 10) = Medium
   \<and> (1 / 10 :: real) < 3 / 10 \<and> churn_label_of (1 / 10) = Low"
  using churn_label_thresholds [of "75 / 100"] churn_label_thresholds [of "5 / 10"]
        churn_label_thresholds [of "1 / 10"]
  by simp

text \<open>
  Claim C6. For shares that sum to 1 the concentration calculator returns the sum of
  the squared shares as its index, with the label \<^verbatim>\<open>fragmented\<close> for an index below 0.15,
  \<^verbatim>\<open>moderate\<close> from 0.15 to 0.25 and \<^verbatim>\<open>concentrated\<close> above 0.25. The shares 0.8 and 0.2
  give the index 0.68 and the label \<^verbatim>\<open>concentrated\<close>.
\<close>

theorem concentration_of_shares:
  "(sum_list shares = 1 \<longrightarrow>
      concentration_calculator shares =
        Inr \<lparr> index = (\<Sum>s\<leftarrow>shares. s\<^sup>2),
              label = concentration_label_of (\<Sum>s\<leftarrow>shares. s\<^sup>2) \<rparr>)
   \<and> (x < 15 / 100 \<longrightarrow> concentration_label_of x = Fragmented)
   \<and> (15 / 100 \<le> x \<and> x \<le> 25 / 100 \<longrightarrow> concentration_label_of x = Moderate)
   \<and> (25 / 100 < x \<longrightarrow> concentration_label_of x = Concentrated)
   \<and> concentration_calculator [8 / 10, 2 / 10] =
        Inr \<lparr> index = 68 / 100, label = Concentrated \<rparr>"
proof -
  have "concentration_calculator [8 / 10, 2 / 10] =
        Inr \<lparr> index = 68 / 100, label = Concentrated \<rparr>"
    by (simp add: concentration_calculator_def concentration_index_def
        concentration_label_of_def power2_eq_square)
  then show ?thesis
    by (simp add: concentration_calculator_def concentration_index_def
        concentration_label_of_def)
qed

theorem concentration_of_shares_witness:
  "sum_list [5 / 10, 3 / 10, 2 / 10 :: real] = 1
   \<and> concentration_calculator [5 / 10, 3 / 10, 2 / 10] =
        Inr \<lparr> index = 38 / 100, label = Concentrated \<rparr>
   \<and> concentration_label_of (1 / 10) = Fragmented
   \<and> concentration_label_of (2 / 10) = Moderate"
  using concentration_of_shares [of "[5 / 10, 3 / 10, 2 / 10]" "1 / 10"]
        concentration_of_shares [of "[5 / 10, 3 / 10, 2 / 10]" "2 / 10"]
        concentration_of_shares [of "[5 / 10, 3 / 10, 2 / 10]" "38 / 100"]
  by (simp add: power2_eq_square)

text \<open>
  Claim C7. The concentration index, and with it the whole result of the calculator,
  does not change when the shares are permuted; and moving a positive mass from a share
  to a strictly larger share leaves the sum of the shares as it is and makes the index
  strictly larger.
\<close>

theorem concentration_index_properties:
  "(mset shares = mset shares' \<longrightarrow>
      concentration_index shares = concentration_index shares'
      \<and> concentration_calculator shares = concentration_calculator shares')
   \<and> (i < length shares \<and> j < length shares \<and> shares ! i < shares ! j \<and> 0 < d \<longrightarrow>
      concentration_index shares < concentration_index (transfer i j d shares)
      \<and> sum_list (transfer i j d shares) = sum_list shares)"
proof (intro conjI impI)
  assume "mset shares = mset shares'"
  then show "concentration_index shares = concentration_index shares'"
    by (rule concentration_calculator_perm)
next
  assume "mset shares = mset shares'"
  then show "concentration_calculator shares = concentration_calculator shares'"
    by (rule concentration_calculator_perm)
next
  assume "i < length shares \<and> j < length shares \<and> shares ! i < shares ! j \<and> 0 < d"
  then show "concentration_index shares < concentration_index (transfer i j d shares)"
    by (simp add: transfer_increases)
next
  assume h: "i < length shares \<and> j < length shares \<and> shares ! i < shares ! j \<and> 0 < d"
  then have "i \<noteq> j" by auto
  with h show "sum_list (transfer i j d shares) = sum_list shares"
    by (simp add: transfer_sum)
qed

theorem concentration_index_properties_witness:
  "mset [2 / 10, 8 / 10 :: real] = mset [8 / 10, 2 / 10]
   \<and> concentration_index [2 / 10, 8 / 10] = concentration_index [8 / 10, 2 / 10]
   \<and> concentration_calculator [2 / 10, 8 / 10] = concentration_calculator [8 / 10, 2 / 10]
   \<and> transfer 0 1 (1 / 10) [2 / 10, 8 / 10] = [1 / 10, 9 / 10]
   \<and> concentration_index [2 / 10, 8 / 10] < concentration_index [1 / 10, 9 / 10]
   \<and> sum_list [1 / 10, 9 / 10 :: real] = sum_list [2 / 10, 8 / 10]"
proof -
  have p: "mset [2 / 10, 8 / 10 :: real] = mset [8 / 10, 2 / 10]"
    by (simp add: add_mset_commute)
  have t: "transfer 0 1 (1 / 10) [2 / 10, 8 / 10] = [1 / 10, 9 / 10]"
    by (simp add: transfer_def)
  have h: "0 < length [2 / 10, 8 / 10 :: real] \<and> 1 < length [2 / 10, 8 / 10 :: real]
      \<and> [2 / 10, 8 / 10 :: real] ! 0 < [2 / 10, 8 / 10] ! 1 \<and> (0::real) < 1 / 10"
    by simp
  from concentration_index_properties
         [of "[2 / 10, 8 / 10]" "[8 / 10, 2 / 10]" 0 1 "1 / 10"] p t h
  show ?thesis
    by simp
qed

end
